theory Spec2Isabelle
  imports Main "HOL-Library.Sublist"
begin

section \<open>Values of the JavaScript program\<close>

text \<open>
  The bridge is a single Node.js file that exists in two editions with the same
  structure: the stand-alone server and the Home Assistant add-on server. Where the two
  differ (the texts of some replies) the model takes the edition as a parameter.
\<close>

datatype edition = Standalone | Addon

text \<open>
  \<open>clientStatus\<close> is a string variable that is only ever assigned one of six literals.
\<close>

datatype status = DISCONNECTED | INITIALIZING | QR_READY | AUTHENTICATED | READY | AUTH_FAILURE

fun status_text :: "status \<Rightarrow> string" where
  "status_text DISCONNECTED = ''DISCONNECTED''"
| "status_text INITIALIZING = ''INITIALIZING''"
| "status_text QR_READY = ''QR_READY''"
| "status_text AUTHENTICATED = ''AUTHENTICATED''"
| "status_text READY = ''READY''"
| "status_text AUTH_FAILURE = ''AUTH_FAILURE''"

text \<open>
  JSON values: what a request body holds, what \<open>res.json\<close> replies with and what
  \<open>JSON.stringify\<close> puts on a socket. A frame is recorded as the value that is
  serialised, not as its text. Numbers are the integers.
\<close>

datatype json =
    JNull | JBool bool | JNum int | JStr string | JObj "(string \<times> json) list" | JArr "json list"

text \<open>An error that is thrown, with its message.\<close>

datatype js_error = Error string | TypeError string

text \<open>JavaScript truthiness of an optional string: \<open>undefined\<close> and \<open>""\<close> are falsy.\<close>

fun truthy :: "string option \<Rightarrow> bool" where
  "truthy None = False"
| "truthy (Some s) = (s \<noteq> [])"

text \<open>\<open>a || b\<close> on optional strings.\<close>

definition or_else :: "string option \<Rightarrow> string option \<Rightarrow> string option" where
  "or_else a b = (if truthy a then a else b)"

text \<open>The string an optional string holds; only read where the value is truthy or \<open>""\<close>.\<close>

definition str :: "string option \<Rightarrow> string" where
  "str a = (case a of None \<Rightarrow> [] | Some s \<Rightarrow> s)"

text \<open>
  JavaScript truthiness of a property read from a JSON object: \<open>undefined\<close> (the
  property is missing), \<open>null\<close>, \<open>false\<close>, \<open>0\<close> and \<open>""\<close> are falsy, everything else
  is truthy.
\<close>

fun truthy_json :: "json option \<Rightarrow> bool" where
  "truthy_json None = False"
| "truthy_json (Some JNull) = False"
| "truthy_json (Some (JBool b)) = b"
| "truthy_json (Some (JNum n)) = (n \<noteq> 0)"
| "truthy_json (Some (JStr s)) = (s \<noteq> [])"
| "truthy_json (Some (JObj kvs)) = True"
| "truthy_json (Some (JArr vs)) = True"

text \<open>The value a property holds; only read where the property is truthy.\<close>

definition js_value :: "json option \<Rightarrow> json" where
  "js_value a = (case a of None \<Rightarrow> JNull | Some v \<Rightarrow> v)"

section \<open>String operations\<close>

text \<open>\<open>String.prototype.includes\<close>: the needle occurs at some position.\<close>

fun str_includes :: "string \<Rightarrow> string \<Rightarrow> bool" where
  "str_includes [] t = (t = [])"
| "str_includes (c # cs) t = (prefix t (c # cs) \<or> str_includes cs t)"

text \<open>\<open>String.prototype.endsWith\<close>: the last \<open>length t\<close> characters are \<open>t\<close>.\<close>

definition endsWith :: "string \<Rightarrow> string \<Rightarrow> bool" where
  "endsWith s t = (if length s < length t then False else drop (length s - length t) s = t)"

text \<open>The regular expression class \<open>\d\<close>; \<open>\D\<close> is its complement.\<close>

definition is_digit :: "char \<Rightarrow> bool" where
  "is_digit c = (c \<in> set ''0123456789'')"

text \<open>\<open>s.replace(/\D/g, "")\<close>: every character that is not a digit is removed.\<close>

definition replace_non_digits :: "string \<Rightarrow> string" where
  "replace_non_digits s = filter is_digit s"

text \<open>
  Header values reach the program as Latin-1 strings, one \<open>char\<close> per character. Among
  these the class \<open>\s\<close>, and the characters \<open>trim\<close> removes, are tab, line feed,
  vertical tab, form feed, carriage return, space and the no-break space.
\<close>

definition is_space :: "char \<Rightarrow> bool" where
  "is_space c = (c \<in> set [CHR 0x09, CHR 0x0A, CHR 0x0B, CHR 0x0C, CHR 0x0D, CHR 0x20, CHR 0xA0])"

definition trim :: "string \<Rightarrow> string" where
  "trim s = rev (dropWhile is_space (rev (dropWhile is_space s)))"

text \<open>
  A literal word matched with the flag \<open>i\<close>: each pattern letter is given with its lower
  and upper case form, and a character matches if it is one of the two.
\<close>

fun match_ci :: "(char \<times> char) list \<Rightarrow> string \<Rightarrow> string option" where
  "match_ci [] s = Some s"
| "match_ci (p # ps) [] = None"
| "match_ci (p # ps) (c # cs) = (if c = fst p \<or> c = snd p then match_ci ps cs else None)"

definition Bearer :: "(char \<times> char) list" where
  "Bearer = zip ''bearer'' ''BEARER''"

text \<open>
  \<open>header.replace(/^Bearer\s+/i, "")\<close>: if the string starts with the word and at least
  one white-space character, the word and the whole run of white space are removed;
  otherwise the string is returned as it is.
\<close>

definition replace_Bearer :: "string \<Rightarrow> string" where
  "replace_Bearer header =
     (case match_ci Bearer header of
        None \<Rightarrow> header
      | Some rest \<Rightarrow>
          (case rest of
             [] \<Rightarrow> header
           | c # cs \<Rightarrow> if is_space c then dropWhile is_space cs else header))"

section \<open>Configuration\<close>

text \<open>\<open>API_TOKEN = cfg.api_token || "change_me_to_a_random_secret"\<close>.\<close>

definition API_TOKEN :: "string option \<Rightarrow> string" where
  "API_TOKEN api_token =
     str (or_else api_token (Some ''change_me_to_a_random_secret''))"

section \<open>The normalised message payload\<close>

text \<open>The fields of a message of the messaging client that the bridge reads.\<close>

record message =
  msg_id :: string
  msg_from :: string
  msg_to :: string
  msg_body :: string
  msg_type :: string
  msg_timestamp :: int
  msg_fromMe :: bool
  msg_hasMedia :: bool
  msg_hasQuotedMsg :: bool

record contact =
  pushname :: "string option"
  name :: "string option"
  number :: "string option"

record payload =
  p_id :: string
  p_from :: string
  p_to :: string
  p_body :: string
  p_type :: string
  p_timestamp :: int
  from_me :: bool
  is_group :: bool
  contact_name :: string
  has_media :: bool
  has_quoted :: bool

text \<open>
  \<open>buildMessagePayload\<close>. The second argument is the outcome of \<open>msg.getContact()\<close>:
  \<open>None\<close> when it throws, in which case the name stays the sender identifier.
\<close>

definition buildMessagePayload :: "message \<Rightarrow> contact option \<Rightarrow> payload" where
  "buildMessagePayload msg got =
     (let contact_name0 = msg_from msg;
          contact_name1 =
            (case got of
               None \<Rightarrow> contact_name0
             | Some c \<Rightarrow>
                 str (or_else (or_else (or_else (pushname c) (name c)) (number c))
                        (Some (msg_from msg))))
      in \<lparr> p_id = msg_id msg,
           p_from = msg_from msg,
           p_to = msg_to msg,
           p_body = msg_body msg,
           p_type = msg_type msg,
           p_timestamp = msg_timestamp msg,
           from_me = msg_fromMe msg,
           is_group = endsWith (msg_from msg) ''@g.us'',
           contact_name = contact_name1,
           has_media = msg_hasMedia msg,
           has_quoted = msg_hasQuotedMsg msg \<rparr>)"

definition payload_json :: "payload \<Rightarrow> json" where
  "payload_json p =
     JObj [(''id'', JStr (p_id p)), (''from'', JStr (p_from p)), (''to'', JStr (p_to p)),
           (''body'', JStr (p_body p)), (''type'', JStr (p_type p)),
           (''timestamp'', JNum (p_timestamp p)), (''from_me'', JBool (from_me p)),
           (''is_group'', JBool (is_group p)), (''contact_name'', JStr (contact_name p)),
           (''has_media'', JBool (has_media p)), (''has_quoted'', JBool (has_quoted p))]"

section \<open>Replies of the REST interface\<close>

text \<open>
  The three HTML pages of \<open>/api/qr\<close> are kept as templates with their holes: the add-on
  edition's waiting page shows the status text, and the QR page embeds the data URL.
\<close>

datatype html = AlreadyAuthenticatedPage | WaitingForQrPage string | QrCodePage string

text \<open>A reply is its HTTP status code and its body (\<open>res.status(n).json(v)\<close>, \<open>res.send(page)\<close>).\<close>

datatype reply = Json nat json | Html nat html

section \<open>State\<close>

text \<open>
  A socket of the \<open>ws\<close> package as the bridge sees it: its \<open>readyState\<close>
  (0 connecting, 1 open, 2 closing, 3 closed), the frames handed to it for sending, and
  the code and reason of a \<open>close\<close> call made by the bridge.
\<close>

record websocket =
  readyState :: nat
  sent :: "json list"
  closed_with :: "(nat \<times> string) option"

text \<open>
  The module-level variables. \<open>wsClients\<close> is a \<open>Set\<close> of socket objects: it iterates
  in insertion order and holds each object once, so it is a list of object identities,
  and \<open>heap\<close> gives the object behind an identity. \<open>next_ws\<close> is the identity of the next
  socket the WebSocket server will create. \<open>waClient\<close> is \<open>None\<close> for \<open>null\<close> and
  otherwise counts the client objects constructed so far. \<open>timers\<close> counts the pending
  \<open>setTimeout\<close> callbacks.
\<close>

record bridge =
  currentQrDataUrl :: "string option"
  clientStatus :: status
  waClient :: "nat option"
  wsClients :: "nat list"
  heap :: "nat \<Rightarrow> websocket"
  next_ws :: nat
  timers :: nat

definition init_bridge :: bridge where
  "init_bridge =
     \<lparr> currentQrDataUrl = None, clientStatus = DISCONNECTED, waClient = None, wsClients = [],
       heap = (\<lambda>_. \<lparr> readyState = 3, sent = [], closed_with = None \<rparr>), next_ws = 0,
       timers = 0 \<rparr>"

section \<open>The bearer-token middleware\<close>

text \<open>
  \<open>auth\<close>: the first argument is the configured token, the second the
  \<open>authorization\<close> header (\<open>None\<close> when the request has none). The result is \<open>None\<close> when
  the middleware calls \<open>next()\<close> and the reply it sends otherwise.
\<close>

definition auth :: "string \<Rightarrow> string option \<Rightarrow> reply option" where
  "auth api_token authorization =
     (let header = str (or_else authorization (Some []));
          token = trim (replace_Bearer header)
      in if token \<noteq> api_token then Some (Json 401 (JObj [(''error'', JStr ''Unauthorized'')]))
         else None)"

text \<open>
  A route \<open>app.get(path, auth, handler)\<close>: the handler runs only if \<open>auth\<close> called
  \<open>next()\<close>. A handler yields its reply and the calls it made to the messaging client.
\<close>

definition route :: "string \<Rightarrow> string option \<Rightarrow> reply \<times> 'c list \<Rightarrow> reply \<times> 'c list" where
  "route api_token authorization handler =
     (case auth api_token authorization of Some r \<Rightarrow> (r, []) | None \<Rightarrow> handler)"

section \<open>The pairing-artifact query\<close>

definition api_qr :: "edition \<Rightarrow> bridge \<Rightarrow> reply" where
  "api_qr ed st =
     (if clientStatus st = READY \<or> clientStatus st = AUTHENTICATED then
        (case ed of
           Standalone \<Rightarrow> Json 200 (JObj [(''message'', JStr ''Already authenticated, no QR needed.'')])
         | Addon \<Rightarrow> Html 200 AlreadyAuthenticatedPage)
      else if \<not> truthy (currentQrDataUrl st) then
        (case ed of
           Standalone \<Rightarrow>
             Json 200 (JObj [(''message'',
               JStr (''QR not yet generated. Status: '' @ status_text (clientStatus st)))])
         | Addon \<Rightarrow> Html 200 (WaitingForQrPage (status_text (clientStatus st))))
      else Html 200 (QrCodePage (str (currentQrDataUrl st))))"

section \<open>The send operation\<close>

text \<open>
  The four properties that the handler of \<open>POST /api/send\<close> destructures from
  \<open>req.body || {}\<close>. The body is parsed JSON, so a property is missing (\<open>None\<close>) or holds
  any JSON value. The request has no body at all when the argument of the handler is
  \<open>None\<close>.
\<close>

record send_body =
  body_to :: "json option"
  body_message :: "json option"
  body_media_url :: "json option"
  body_media_filename :: "json option"

definition no_body :: send_body where
  "no_body = \<lparr> body_to = None, body_message = None, body_media_url = None,
                body_media_filename = None \<rparr>"

text \<open>
  The messaging client is outside the program. A media object has a MIME type, its data
  and a file name; a sent message has a serialised identifier and a time stamp. Each of
  the two asynchronous calls is given the values the handler passes on and either
  resolves or rejects with an error message.
\<close>

datatype media = MessageMedia string string "string option"

datatype content = Text json | Media media "json option"

record sent_message =
  sent_id :: string
  sent_timestamp :: int

record world =
  fromUrl :: "json \<Rightarrow> json option \<Rightarrow> string + media"
  sendMessage :: "json \<Rightarrow> content \<Rightarrow> string + sent_message"

datatype call = FromUrl json "json option" | SendMessage json content

text \<open>\<open>to.includes("@") ? to : `${to.replace(/\D/g, "")}@c.us`\<close> for a string \<open>to\<close>.\<close>

definition chatId :: "string \<Rightarrow> string" where
  "chatId to = (if str_includes to ''@'' then to else replace_non_digits to @ ''@c.us'')"

text \<open>
  The same expression for any truthy value. A string is resolved as above. An array has
  \<open>includes\<close>, which looks for the element \<open>"@"\<close>, but no \<open>replace\<close>. A number, \<open>true\<close>
  or an object has no \<open>includes\<close>, and calling it throws.
\<close>

fun resolve_chat :: "json \<Rightarrow> js_error + json" where
  "resolve_chat (JStr to) = Inr (JStr (chatId to))"
| "resolve_chat (JArr vs) =
     (if JStr ''@'' \<in> set vs then Inr (JArr vs)
      else Inl (TypeError ''to.replace is not a function''))"
| "resolve_chat to = Inl (TypeError ''to.includes is not a function'')"

definition not_ready_text :: "edition \<Rightarrow> string" where
  "not_ready_text ed =
     (case ed of Standalone \<Rightarrow> ''WhatsApp client not ready. Status: ''
               | Addon \<Rightarrow> ''WhatsApp not ready. Status: '')"

definition message_required_text :: "edition \<Rightarrow> string" where
  "message_required_text ed =
     (case ed of Standalone \<Rightarrow> [CHR 0x27] @ ''message'' @ [CHR 0x27] @ '' is required when no media_url''
               | Addon \<Rightarrow> [CHR 0x27] @ ''message'' @ [CHR 0x27] @ '' is required'')"

definition error_reply :: "nat \<Rightarrow> string \<Rightarrow> reply" where
  "error_reply code text = Json code (JObj [(''error'', JStr text)])"

definition success_reply :: "sent_message \<Rightarrow> reply" where
  "success_reply sentMsg =
     Json 200 (JObj [(''success'', JBool True), (''message_id'', JStr (sent_id sentMsg)),
                     (''timestamp'', JNum (sent_timestamp sentMsg))])"

definition to_required_text :: string where
  "to_required_text = [CHR 0x27] @ ''to'' @ [CHR 0x27] @ '' is required''"

text \<open>
  The handler. It yields the reply it sends and the calls it made to the messaging
  client, or the error it throws without replying: the destination is resolved before
  the \<open>try\<close> block is entered, so an error thrown there is not caught.
\<close>

definition api_send ::
  "edition \<Rightarrow> world \<Rightarrow> bridge \<Rightarrow> send_body option \<Rightarrow> js_error + reply \<times> call list" where
  "api_send ed w st req_body =
     (if clientStatus st \<noteq> READY then
        Inr (error_reply 503 (not_ready_text ed @ status_text (clientStatus st)), [])
      else
        let body = (case req_body of None \<Rightarrow> no_body | Some b \<Rightarrow> b);
            to = body_to body;
            message = body_message body;
            media_url = body_media_url body;
            media_filename = body_media_filename body
        in
        if \<not> truthy_json to then Inr (error_reply 400 to_required_text, [])
        else
          (case resolve_chat (js_value to) of
             Inl e \<Rightarrow> Inl e
           | Inr chat \<Rightarrow>
               if truthy_json media_url then
                 (case fromUrl w (js_value media_url) media_filename of
                    Inl err \<Rightarrow> Inr (error_reply 500 err, [FromUrl (js_value media_url) media_filename])
                  | Inr m \<Rightarrow>
                      let caption = (if truthy_json message then message else None);
                          calls = [FromUrl (js_value media_url) media_filename,
                                   SendMessage chat (Media m caption)]
                      in (case sendMessage w chat (Media m caption) of
                            Inl err \<Rightarrow> Inr (error_reply 500 err, calls)
                          | Inr sentMsg \<Rightarrow> Inr (success_reply sentMsg, calls)))
               else if \<not> truthy_json message then
                 Inr (error_reply 400 (message_required_text ed), [])
               else
                 (case sendMessage w chat (Text (js_value message)) of
                    Inl err \<Rightarrow>
                      Inr (error_reply 500 err, [SendMessage chat (Text (js_value message))])
                  | Inr sentMsg \<Rightarrow>
                      Inr (success_reply sentMsg, [SendMessage chat (Text (js_value message))]))))"

section \<open>The event broadcaster\<close>

text \<open>
  \<open>ws.send(data)\<close> of the \<open>ws\<close> package, called without a callback: it throws on a
  socket that is still connecting, drops the data on a socket that is closing or closed,
  and hands the data to an open socket.
\<close>

definition ws_send :: "websocket \<Rightarrow> json \<Rightarrow> js_error + websocket" where
  "ws_send ws data =
     (if readyState ws = 0 then Inl (Error ''WebSocket is not open: readyState 0 (CONNECTING)'')
      else if readyState ws \<noteq> 1 then Inr ws
      else Inr (ws\<lparr>sent := sent ws @ [data]\<rparr>))"

text \<open>\<open>ws.close(code, reason)\<close> on an open socket starts the closing handshake.\<close>

definition ws_close :: "nat \<Rightarrow> string \<Rightarrow> websocket \<Rightarrow> websocket" where
  "ws_close code reason ws = ws\<lparr>readyState := 2, closed_with := Some (code, reason)\<rparr>"

text \<open>\<open>Set.prototype.add\<close> and \<open>Set.prototype.delete\<close> on the list of identities.\<close>

definition set_add :: "nat \<Rightarrow> nat list \<Rightarrow> nat list" where
  "set_add x xs = (if x \<in> set xs then xs else xs @ [x])"

definition set_delete :: "nat \<Rightarrow> nat list \<Rightarrow> nat list" where
  "set_delete x xs = removeAll x xs"

text \<open>The loop \<open>for (const ws of wsClients) { if (ws.readyState === 1) ws.send(msg); }\<close>.\<close>

fun broadcast_loop :: "json \<Rightarrow> nat list \<Rightarrow> (nat \<Rightarrow> websocket) \<Rightarrow> js_error + (nat \<Rightarrow> websocket)" where
  "broadcast_loop msg [] h = Inr h"
| "broadcast_loop msg (ws # rest) h =
     (if readyState (h ws) = 1 then
        (case ws_send (h ws) msg of
           Inl e \<Rightarrow> Inl e
         | Inr ws' \<Rightarrow> broadcast_loop msg rest (h(ws := ws')))
      else broadcast_loop msg rest h)"

definition broadcast :: "json \<Rightarrow> bridge \<Rightarrow> js_error + bridge" where
  "broadcast payload st =
     (case broadcast_loop payload (wsClients st) (heap st) of
        Inl e \<Rightarrow> Inl e
      | Inr h \<Rightarrow> Inr (st\<lparr>heap := h\<rparr>))"

text \<open>The object \<open>{ event: name, data: d }\<close>; \<open>data\<close> is left out when there is none.\<close>

definition event :: "string \<Rightarrow> json option \<Rightarrow> json" where
  "event ev data =
     JObj ((''event'', JStr ev) # (case data of None \<Rightarrow> [] | Some d \<Rightarrow> [(''data'', d)]))"

text \<open>The value of the \<open>event\<close> field of a frame.\<close>

fun event_of :: "json \<Rightarrow> string" where
  "event_of (JObj ((k, JStr ev) # kvs)) = (if k = ''event'' then ev else [])"
| "event_of j = []"

definition status_event :: "status \<Rightarrow> json" where
  "status_event s = event ''status'' (Some (JObj [(''status'', JStr (status_text s))]))"

text \<open>
  The handler of \<open>wss.on("connection")\<close>. The server has created the socket object, which
  is open and has sent nothing; the second argument is the \<open>token\<close> query parameter
  (\<open>None\<close> for \<open>null\<close>).
\<close>

definition wss_connection :: "string \<Rightarrow> string option \<Rightarrow> bridge \<Rightarrow> js_error + bridge" where
  "wss_connection api_token token st =
     (let ws = next_ws st;
          st0 = st\<lparr>heap := (heap st)(ws := \<lparr>readyState = 1, sent = [], closed_with = None\<rparr>),
                   next_ws := Suc ws\<rparr>
      in if token \<noteq> Some api_token then
           Inr (st0\<lparr>heap := (heap st0)(ws := ws_close 4001 ''Unauthorized'' (heap st0 ws))\<rparr>)
         else
           let st1 = st0\<lparr>wsClients := set_add ws (wsClients st0)\<rparr> in
           (case ws_send (heap st1 ws) (status_event (clientStatus st1)) of
              Inl e \<Rightarrow> Inl e
            | Inr ws' \<Rightarrow> Inr (st1\<lparr>heap := (heap st1)(ws := ws')\<rparr>)))"

text \<open>The handlers \<open>ws.on("close")\<close> and \<open>ws.on("error")\<close> of a registered socket.\<close>

definition ws_on_close :: "nat \<Rightarrow> bridge \<Rightarrow> bridge" where
  "ws_on_close ws st = st\<lparr>wsClients := set_delete ws (wsClients st)\<rparr>"

definition ws_on_error :: "nat \<Rightarrow> bridge \<Rightarrow> bridge" where
  "ws_on_error ws st = st\<lparr>wsClients := set_delete ws (wsClients st)\<rparr>"

section \<open>The lifecycle coordinator\<close>

text \<open>
  \<open>createClient\<close> replaces the client object, registers the handlers below on it, sets
  the status and starts \<open>initialize()\<close>, whose outcome arrives later as a signal.
\<close>

definition createClient :: "bridge \<Rightarrow> bridge" where
  "createClient st =
     st\<lparr>waClient := Some (case waClient st of None \<Rightarrow> 1 | Some n \<Rightarrow> Suc n),
        clientStatus := INITIALIZING\<rparr>"

text \<open>
  The \<open>qr\<close> handler is asynchronous: it sets the status, then awaits the encoding of the
  QR token, and stores and publishes the data URL when it resumes. Other handlers can
  run in between, so the model has the two halves.
\<close>

definition on_qr :: "bridge \<Rightarrow> bridge" where
  "on_qr st = st\<lparr>clientStatus := QR_READY\<rparr>"

definition on_qr_resume :: "string \<Rightarrow> bridge \<Rightarrow> js_error + bridge" where
  "on_qr_resume url st =
     (let st1 = st\<lparr>currentQrDataUrl := Some url\<rparr>
      in broadcast (event ''qr'' (Some (JObj [(''qr_data_url'', JStr (str (currentQrDataUrl st1)))]))) st1)"

definition on_authenticated :: "bridge \<Rightarrow> js_error + bridge" where
  "on_authenticated st =
     broadcast (event ''authenticated'' None)
       (st\<lparr>clientStatus := AUTHENTICATED, currentQrDataUrl := None\<rparr>)"

definition on_auth_failure :: "string \<Rightarrow> bridge \<Rightarrow> js_error + bridge" where
  "on_auth_failure msg st =
     broadcast (event ''auth_failure'' (Some (JObj [(''message'', JStr msg)])))
       (st\<lparr>clientStatus := AUTH_FAILURE\<rparr>)"

text \<open>The argument \<open>info\<close> is \<open>waClient.info\<close> at the time of the signal.\<close>

definition on_ready :: "json \<Rightarrow> bridge \<Rightarrow> js_error + bridge" where
  "on_ready info st =
     broadcast (event ''ready'' (Some (JObj [(''info'', info)]))) (st\<lparr>clientStatus := READY\<rparr>)"

definition on_disconnected :: "string \<Rightarrow> bridge \<Rightarrow> js_error + bridge" where
  "on_disconnected reason st =
     (case broadcast (event ''disconnected'' (Some (JObj [(''reason'', JStr reason)])))
             (st\<lparr>clientStatus := DISCONNECTED\<rparr>) of
        Inl e \<Rightarrow> Inl e
      | Inr st1 \<Rightarrow> Inr (st1\<lparr>timers := Suc (timers st1)\<rparr>))"

text \<open>The callback given to \<open>setTimeout\<close> in the \<open>disconnected\<close> handler.\<close>

definition on_timeout :: "bridge \<Rightarrow> bridge" where
  "on_timeout st = createClient st"

text \<open>
  The \<open>message\<close> and \<open>message_create\<close> handlers change no variable before they await the
  payload, so each is one step taken when \<open>buildMessagePayload\<close> has resolved.
\<close>

definition on_message :: "message \<Rightarrow> contact option \<Rightarrow> bridge \<Rightarrow> js_error + bridge" where
  "on_message msg got st =
     broadcast (event ''message'' (Some (payload_json (buildMessagePayload msg got)))) st"

definition on_message_create :: "message \<Rightarrow> contact option \<Rightarrow> bridge \<Rightarrow> js_error + bridge" where
  "on_message_create msg got st =
     (if msg_fromMe msg then
        broadcast (event ''message_sent'' (Some (payload_json (buildMessagePayload msg got)))) st
      else Inr st)"

definition on_message_ack :: "string \<Rightarrow> int \<Rightarrow> bridge \<Rightarrow> js_error + bridge" where
  "on_message_ack message_id ack st =
     broadcast (event ''message_ack''
       (Some (JObj [(''message_id'', JStr message_id), (''ack'', JNum ack)]))) st"

definition on_change_state :: "string \<Rightarrow> bridge \<Rightarrow> js_error + bridge" where
  "on_change_state state st =
     broadcast (event ''state_change'' (Some (JObj [(''state'', JStr state)]))) st"

text \<open>The callback of \<open>waClient.initialize().catch(...)\<close>.\<close>

definition on_initialize_error :: "bridge \<Rightarrow> bridge" where
  "on_initialize_error st = st\<lparr>clientStatus := DISCONNECTED\<rparr>"

section \<open>Runs of the event loop\<close>

text \<open>
  Everything the program does after start-up is a reaction to a signal, and Node runs
  one reaction at a time. \<open>SocketState ws n\<close> is the network changing the \<open>readyState\<close>
  of a socket; \<open>SocketClose\<close> and \<open>SocketError\<close> are the events of these names, the first
  of which the package emits on a closed socket. \<open>Timeout\<close> is a pending timer firing.
  The first argument of \<open>fire\<close> is the configured token.
\<close>

datatype signal =
    Listening
  | Qr
  | QrEncoded string
  | Authenticated
  | AuthFailure string
  | Ready json
  | Disconnected string
  | Timeout
  | Message message "contact option"
  | MessageCreate message "contact option"
  | MessageAck string int
  | ChangeState string
  | InitializeRejected
  | Connection "string option"
  | SocketState nat nat
  | SocketClose nat
  | SocketError nat

definition set_readyState :: "nat \<Rightarrow> nat \<Rightarrow> bridge \<Rightarrow> bridge" where
  "set_readyState ws n st = st\<lparr>heap := (heap st)(ws := (heap st ws)\<lparr>readyState := n\<rparr>)\<rparr>"

fun fire :: "string \<Rightarrow> signal \<Rightarrow> bridge \<Rightarrow> js_error + bridge" where
  "fire tok Listening st = Inr (createClient st)"
| "fire tok Qr st = Inr (on_qr st)"
| "fire tok (QrEncoded url) st = on_qr_resume url st"
| "fire tok Authenticated st = on_authenticated st"
| "fire tok (AuthFailure msg) st = on_auth_failure msg st"
| "fire tok (Ready info) st = on_ready info st"
| "fire tok (Disconnected reason) st = on_disconnected reason st"
| "fire tok Timeout st =
     (if timers st = 0 then Inr st else Inr (on_timeout (st\<lparr>timers := timers st - 1\<rparr>)))"
| "fire tok (Message msg got) st = on_message msg got st"
| "fire tok (MessageCreate msg got) st = on_message_create msg got st"
| "fire tok (MessageAck message_id ack) st = on_message_ack message_id ack st"
| "fire tok (ChangeState state) st = on_change_state state st"
| "fire tok InitializeRejected st = Inr (on_initialize_error st)"
| "fire tok (Connection token) st = wss_connection tok token st"
| "fire tok (SocketState ws n) st = Inr (set_readyState ws n st)"
| "fire tok (SocketClose ws) st = Inr (ws_on_close ws (set_readyState ws 3 st))"
| "fire tok (SocketError ws) st = Inr (ws_on_error ws st)"

text \<open>A run stops at the first handler that throws.\<close>

fun run :: "string \<Rightarrow> signal list \<Rightarrow> bridge \<Rightarrow> js_error + bridge" where
  "run tok [] st = Inr st"
| "run tok (sig # sigs) st = (case fire tok sig st of Inl e \<Rightarrow> Inl e | Inr st1 \<Rightarrow> run tok sigs st1)"

section \<open>Closed forms used in the statements\<close>

text \<open>
  The effect of the broadcast loop on one socket, in closed form: an open socket is handed
  the frame once for each time it is listed, and any other socket is left as it is.
  Lemma \<open>broadcast_loop_delivered\<close> proves that the loop computes exactly this.
\<close>

definition delivered :: "json \<Rightarrow> nat list \<Rightarrow> (nat \<Rightarrow> websocket) \<Rightarrow> nat \<Rightarrow> websocket" where
  "delivered msg cs h ws =
     (if readyState (h ws) = 1 then (h ws)\<lparr>sent := sent (h ws) @ replicate (count_list cs ws) msg\<rparr>
      else h ws)"

text \<open>
  The stored pairing artifact as a function of the signals alone: the data URL of the last
  encoded QR, unless an \<open>authenticated\<close> signal came after it.
\<close>

fun artifact_step :: "signal \<Rightarrow> string option \<Rightarrow> string option" where
  "artifact_step (QrEncoded url) a = Some url"
| "artifact_step Authenticated a = None"
| "artifact_step sig a = a"

fun artifact_after :: "signal list \<Rightarrow> string option \<Rightarrow> string option" where
  "artifact_after [] a = a"
| "artifact_after (sig # sigs) a = artifact_after sigs (artifact_step sig a)"

text \<open>
  The subscriber set, with the identity of the next socket, as a function of the signals
  alone: a connection that presents the token adds its socket, the \<open>close\<close> and the
  \<open>error\<close> event of a socket delete that socket, and no other signal changes the set.
\<close>

fun subscribers_step :: "string \<Rightarrow> signal \<Rightarrow> nat \<times> nat list \<Rightarrow> nat \<times> nat list" where
  "subscribers_step tok (Connection token) (n, cs) =
     (Suc n, if token = Some tok then set_add n cs else cs)"
| "subscribers_step tok (SocketClose ws) (n, cs) = (n, set_delete ws cs)"
| "subscribers_step tok (SocketError ws) (n, cs) = (n, set_delete ws cs)"
| "subscribers_step tok sig (n, cs) = (n, cs)"

fun subscribers_after :: "string \<Rightarrow> signal list \<Rightarrow> nat \<times> nat list \<Rightarrow> nat \<times> nat list" where
  "subscribers_after tok [] p = p"
| "subscribers_after tok (sig # sigs) p = subscribers_after tok sigs (subscribers_step tok sig p)"

text \<open>The names of the events that the handlers of the messaging client publish.\<close>

definition broadcast_events :: "string list" where
  "broadcast_events =
     [''qr'', ''authenticated'', ''auth_failure'', ''ready'', ''disconnected'', ''message'',
      ''message_sent'', ''message_ack'', ''state_change'']"

text \<open>The sockets whose \<open>close\<close> or \<open>error\<close> handler a signal runs.\<close>

fun closes :: "signal \<Rightarrow> nat list" where
  "closes (SocketClose ws) = [ws]"
| "closes (SocketError ws) = [ws]"
| "closes sig = []"




text \<open>
  The token a request presents, in the words of the interface description: if the header
  starts with the word \<open>Bearer\<close> in any mix of cases followed by a white-space character,
  these seven characters are dropped; then surrounding white space is trimmed.
\<close>

definition ascii_lower :: "char \<Rightarrow> char" where
  "ascii_lower c =
     (case map_of (zip ''ABCDEFGHIJKLMNOPQRSTUVWXYZ'' ''abcdefghijklmnopqrstuvwxyz'') c of
        None \<Rightarrow> c | Some l \<Rightarrow> l)"

definition has_Bearer_prefix :: "string \<Rightarrow> bool" where
  "has_Bearer_prefix h =
     (7 \<le> length h \<and> map ascii_lower (take 6 h) = ''bearer'' \<and> is_space (h ! 6))"

definition presented_token :: "string \<Rightarrow> string" where
  "presented_token h = trim (if has_Bearer_prefix h then drop 7 h else h)"

section \<open>Sample inputs\<close>

text \<open>A messaging client whose calls all resolve.\<close>

definition echo_world :: world where
  "echo_world =
     \<lparr> fromUrl = (\<lambda>url filename. Inr (MessageMedia ''image/png'' ''iVBORw0KGgo='' None)),
       sendMessage = (\<lambda>chat c. Inr \<lparr> sent_id = ''true_3EB0'', sent_timestamp = 1700000000 \<rparr>) \<rparr>"

definition hello_body :: send_body where
  "hello_body = \<lparr> body_to = Some (JStr ''+1 (555) 123-4567''),
                   body_message = Some (JStr ''hello''),
                   body_media_url = None, body_media_filename = None \<rparr>"

text \<open>The body \<open>{"to": 15551234567}\<close>: the destination is a number, nothing else is given.\<close>

definition number_body :: send_body where
  "number_body = no_body\<lparr> body_to := Some (JNum 15551234567) \<rparr>"

text \<open>
  One subscriber has registered while the status was \<open>DISCONNECTED\<close>. Its socket has
  started the closing handshake since; its \<open>close\<close> event has not been emitted yet.
\<close>

definition stale_bridge :: bridge where
  "stale_bridge =
     init_bridge\<lparr> wsClients := [0],
       heap := (heap init_bridge)(0 := \<lparr> readyState = 2, sent = [status_event DISCONNECTED],
                                          closed_with = None \<rparr>),
       next_ws := 1 \<rparr>"

section \<open>Lemmas on strings\<close>

lemma str_includes_single: "str_includes s [c] = (c \<in> set s)"
  by (induction s) auto

lemma chatId_char:
  "chatId to = (if CHR ''@'' \<in> set to then to else filter is_digit to @ ''@c.us'')"
  by (simp add: chatId_def str_includes_single replace_non_digits_def)

lemma endsWith_suffix: "endsWith s t = suffix t s"
proof (cases "length s < length t")
  case True
  then have "\<not> suffix t s" by (auto simp: suffix_def)
  with True show ?thesis by (simp add: endsWith_def)
next
  case False
  have "suffix t s = (drop (length s - length t) s = t)"
  proof
    assume "suffix t s"
    then obtain pre where "s = pre @ t" by (auto simp: suffix_def)
    then show "drop (length s - length t) s = t" by simp
  next
    assume "drop (length s - length t) s = t"
    then have "s = take (length s - length t) s @ t" by (metis append_take_drop_id)
    then show "suffix t s" by (metis suffixI)
  qed
  with False show ?thesis by (simp add: endsWith_def)
qed

lemma trim_dropWhile: "trim (dropWhile is_space s) = trim s"
  by (simp add: trim_def)

lemma str_or_else_empty: "str (or_else a (Some [])) = str a"
  by (cases a) (auto simp: or_else_def str_def)

lemma API_TOKEN_nonempty: "API_TOKEN cfg \<noteq> []"
  by (cases cfg) (auto simp: API_TOKEN_def or_else_def str_def)

section \<open>The regular expression and the prefix it removes\<close>

lemma lower_b: "(ascii_lower c = CHR ''b'') = (c = CHR ''b'' \<or> c = CHR ''B'')"
  by (auto simp: ascii_lower_def)

lemma lower_e: "(ascii_lower c = CHR ''e'') = (c = CHR ''e'' \<or> c = CHR ''E'')"
  by (auto simp: ascii_lower_def)

lemma lower_a: "(ascii_lower c = CHR ''a'') = (c = CHR ''a'' \<or> c = CHR ''A'')"
  by (auto simp: ascii_lower_def)

lemma lower_r: "(ascii_lower c = CHR ''r'') = (c = CHR ''r'' \<or> c = CHR ''R'')"
  by (auto simp: ascii_lower_def)

lemma match_ci_lower:
  "list_all (\<lambda>p. \<forall>c. (c = fst p \<or> c = snd p) = (ascii_lower c = fst p)) ps \<Longrightarrow>
   match_ci ps h =
     (if length ps \<le> length h \<and> map ascii_lower (take (length ps) h) = map fst ps
      then Some (drop (length ps) h) else None)"
proof (induction ps h rule: match_ci.induct)
  case (1 s)
  show ?case by simp
next
  case (2 p ps)
  show ?case by simp
next
  case (3 p ps c cs)
  then show ?case by auto
qed

lemma match_Bearer:
  "match_ci Bearer h =
     (if 6 \<le> length h \<and> map ascii_lower (take 6 h) = ''bearer'' then Some (drop 6 h) else None)"
proof -
  have all: "list_all (\<lambda>p. \<forall>c. (c = fst p \<or> c = snd p) = (ascii_lower c = fst p)) Bearer"
    by (simp add: Bearer_def lower_b lower_e lower_a lower_r)
  have len: "length Bearer = 6" by (simp add: Bearer_def)
  have fst: "map fst Bearer = ''bearer''" by (simp add: Bearer_def)
  from match_ci_lower[OF all, of h] show ?thesis unfolding len fst .
qed

lemma drop6_Cons:
  assumes "drop 6 h = c # cs"
  shows "7 \<le> length h" and "c = h ! 6" and "cs = drop 7 h"
proof -
  have "length (drop 6 h) = Suc (length cs)" using assms by simp
  then show len: "7 \<le> length h" by simp
  then have "hd (drop 6 h) = h ! 6" by (intro hd_drop_conv_nth) simp
  then show "c = h ! 6" using assms by simp
  have "drop 7 h = drop (Suc 6) h" by simp
  also have "\<dots> = tl (drop 6 h)" by (simp only: drop_Suc tl_drop)
  finally show "cs = drop 7 h" using assms by simp
qed

lemma replace_Bearer_prefix:
  "replace_Bearer h = (if has_Bearer_prefix h then dropWhile is_space (drop 7 h) else h)"
proof (cases "6 \<le> length h \<and> map ascii_lower (take 6 h) = ''bearer''")
  case False
  then show ?thesis by (auto simp: replace_Bearer_def match_Bearer has_Bearer_prefix_def)
next
  case True
  show ?thesis
  proof (cases "drop 6 h")
    case Nil
    with True show ?thesis by (auto simp: replace_Bearer_def match_Bearer has_Bearer_prefix_def)
  next
    case (Cons c cs)
    from drop6_Cons[OF Cons] True Cons show ?thesis
      by (simp add: replace_Bearer_def match_Bearer has_Bearer_prefix_def)
  qed
qed

lemma auth_token: "trim (replace_Bearer h) = presented_token h"
  by (simp add: replace_Bearer_prefix presented_token_def trim_dropWhile)

lemma auth_char:
  "auth api_token authorization =
     (if presented_token (str authorization) = api_token then None
      else Some (Json 401 (JObj [(''error'', JStr ''Unauthorized'')])))"
  by (simp add: auth_def Let_def auth_token str_or_else_empty)

lemma presented_empty: "presented_token [] = []"
  by (simp add: presented_token_def has_Bearer_prefix_def trim_def)

lemma has_Bearer_prefix_Bearer: "has_Bearer_prefix (''Bearer '' @ t)"
  by (simp add: has_Bearer_prefix_def ascii_lower_def is_space_def)

text \<open>The middleware itself, run on some headers with the token \<open>s3cret\<close>.\<close>

lemma auth_examples:
  "auth ''s3cret'' (Some ''bEaReR   s3cret '') = None"
  "auth ''s3cret'' (Some ''Bearers3cret'') \<noteq> None"
  "auth ''s3cret'' (Some ''Bearer S3cret'') \<noteq> None"
  "auth ''s3cret'' (Some '' Bearer s3cret'') \<noteq> None"
  by (simp_all add: auth_def Let_def or_else_def str_def replace_Bearer_def Bearer_def trim_def
        is_space_def)

lemma trim_secret: "trim ''s3cret'' = ''s3cret''"
  by (simp add: trim_def is_space_def)

lemma no_prefix_secret: "\<not> has_Bearer_prefix ''s3cret''"
  by (simp add: has_Bearer_prefix_def)

lemma presented_wrong: "presented_token ''Bearer wrong'' = ''wrong''"
  by (simp add: presented_token_def has_Bearer_prefix_Bearer[of "''wrong''", simplified]
        trim_def is_space_def)

section \<open>Lemmas on the send operation\<close>

lemma send_text_calls:
  "clientStatus st = READY \<Longrightarrow> body_to b = Some (JStr to) \<Longrightarrow> to \<noteq> [] \<Longrightarrow>
   \<not> truthy_json (body_media_url b) \<Longrightarrow> body_message b = Some (JStr m) \<Longrightarrow> m \<noteq> [] \<Longrightarrow>
   map_sum id snd (api_send ed w st (Some b)) = Inr [SendMessage (JStr (chatId to)) (Text (JStr m))]"
  by (simp add: api_send_def Let_def js_value_def split: sum.splits)

section \<open>Lemmas on the broadcaster\<close>

lemma ws_send_open: "readyState ws = 1 \<Longrightarrow> ws_send ws m = Inr (ws\<lparr>sent := sent ws @ [m]\<rparr>)"
  by (simp add: ws_send_def)

lemma broadcast_loop_delivered: "broadcast_loop m cs h = Inr (delivered m cs h)"
proof (induction cs arbitrary: h)
  case Nil
  show ?case by (simp add: delivered_def fun_eq_iff)
next
  case (Cons c cs)
  show ?case
  proof (cases "readyState (h c) = 1")
    case True
    have eq: "delivered m cs (h(c := (h c)\<lparr>sent := sent (h c) @ [m]\<rparr>)) = delivered m (c # cs) h"
      using True by (auto simp: delivered_def fun_eq_iff replicate_app_Cons_same)
    have "broadcast_loop m (c # cs) h
            = broadcast_loop m cs (h(c := (h c)\<lparr>sent := sent (h c) @ [m]\<rparr>))"
      using True by (simp add: ws_send_open)
    also have "\<dots> = Inr (delivered m cs (h(c := (h c)\<lparr>sent := sent (h c) @ [m]\<rparr>)))"
      by (rule Cons.IH)
    finally show ?thesis by (simp only: eq)
  next
    case False
    have eq: "delivered m cs h = delivered m (c # cs) h"
      using False by (auto simp: delivered_def fun_eq_iff)
    have "broadcast_loop m (c # cs) h = broadcast_loop m cs h"
      using False by simp
    also have "\<dots> = Inr (delivered m cs h)"
      by (rule Cons.IH)
    finally show ?thesis by (simp only: eq)
  qed
qed

lemma broadcast_Inr: "broadcast p st = Inr (st\<lparr>heap := delivered p (wsClients st) (heap st)\<rparr>)"
  by (simp add: broadcast_def broadcast_loop_delivered)

lemma count_list_distinct: "distinct xs \<Longrightarrow> x \<in> set xs \<Longrightarrow> count_list xs x = 1"
  by (induction xs) auto

lemma delivered_sent:
  "sent (delivered p cs h ws) =
     sent (h ws) @ replicate (if readyState (h ws) = 1 then count_list cs ws else 0) p"
  by (simp add: delivered_def)

lemma event_of_event [simp]: "event_of (event ev d) = ev"
  by (simp add: event_def)

lemma broadcast_appends:
  assumes "event_of p \<in> set broadcast_events"
  shows "\<exists>st' k q. broadcast p st = Inr st' \<and> next_ws st' = next_ws st \<and>
           sent (heap st' ws) = sent (heap st ws) @ replicate k q \<and>
           event_of q \<in> set broadcast_events"
proof -
  let ?st' = "st\<lparr>heap := delivered p (wsClients st) (heap st)\<rparr>"
  let ?k = "if readyState (heap st ws) = 1 then count_list (wsClients st) ws else 0"
  have "broadcast p st = Inr ?st'" by (rule broadcast_Inr)
  moreover have "next_ws ?st' = next_ws st" by simp
  moreover have "sent (heap ?st' ws) = sent (heap st ws) @ replicate ?k p"
    by (simp add: delivered_sent)
  ultimately show ?thesis using assms by blast
qed

lemma no_append: "\<exists>k q. xs = xs @ replicate k q \<and> event_of q \<in> set broadcast_events"
  by (rule exI[of _ 0], rule exI[of _ "event ''qr'' None"]) (simp add: broadcast_events_def)

text \<open>The sample state is reached by a run from the initial state.\<close>

lemma stale_bridge_reached:
  "run ''s3cret'' [Connection (Some ''s3cret''), SocketState 0 2] init_bridge = Inr stale_bridge"
  by (simp add: wss_connection_def Let_def ws_send_def set_add_def init_bridge_def
        set_readyState_def stale_bridge_def fun_eq_iff)

section \<open>Lemmas on runs\<close>

text \<open>The subscriber list never holds a socket twice.\<close>

lemma fire_distinct:
  assumes "distinct (wsClients st)" and "fire tok sig st = Inr st'"
  shows "distinct (wsClients st')"
  using assms
  by (cases sig)
     (auto simp: broadcast_Inr createClient_def on_qr_def on_qr_resume_def on_authenticated_def
        on_auth_failure_def on_ready_def on_disconnected_def on_timeout_def on_message_def
        on_message_create_def on_message_ack_def on_change_state_def on_initialize_error_def
        wss_connection_def ws_send_def ws_close_def set_readyState_def ws_on_close_def
        ws_on_error_def set_add_def set_delete_def distinct_removeAll Let_def
        split: if_splits)

lemma run_distinct:
  "distinct (wsClients st) \<Longrightarrow> run tok sigs st = Inr st' \<Longrightarrow> distinct (wsClients st')"
proof (induction sigs arbitrary: st)
  case Nil
  then show ?case by simp
next
  case (Cons sig sigs)
  then show ?case by (auto split: sum.splits dest: fire_distinct)
qed

lemma fire_artifact:
  "\<exists>st'. fire tok sig st = Inr st' \<and>
         currentQrDataUrl st' = artifact_step sig (currentQrDataUrl st)"
  by (cases sig)
     (simp_all add: broadcast_Inr createClient_def on_qr_def on_qr_resume_def
        on_authenticated_def on_auth_failure_def on_ready_def on_disconnected_def on_timeout_def
        on_message_def on_message_create_def on_message_ack_def on_change_state_def
        on_initialize_error_def wss_connection_def ws_send_def ws_close_def set_readyState_def
        ws_on_close_def ws_on_error_def Let_def)

lemma run_artifact:
  "\<exists>st'. run tok sigs st = Inr st' \<and>
         currentQrDataUrl st' = artifact_after sigs (currentQrDataUrl st)"
proof (induction sigs arbitrary: st)
  case Nil
  show ?case by simp
next
  case (Cons sig sigs)
  obtain st1 where 1: "fire tok sig st = Inr st1"
      "currentQrDataUrl st1 = artifact_step sig (currentQrDataUrl st)"
    using fire_artifact by blast
  from Cons[of st1] 1 show ?case by simp
qed


text \<open>
  Whatever the signal, a socket that exists keeps the frames it was handed, and what is
  added are copies of one frame that is not a \<open>status\<close> event.
\<close>

lemma fire_appends:
  assumes "ws < next_ws st"
  shows "\<exists>st' k q. fire tok sig st = Inr st' \<and> next_ws st \<le> next_ws st' \<and>
           sent (heap st' ws) = sent (heap st ws) @ replicate k q \<and>
           event_of q \<in> set broadcast_events"
proof (cases sig)
  case Listening
  then show ?thesis using no_append by (simp add: createClient_def)
next
  case Qr
  then show ?thesis using no_append by (simp add: on_qr_def)
next
  case (QrEncoded url)
  then show ?thesis
    using broadcast_appends[of "event ''qr'' (Some (JObj [(''qr_data_url'', JStr url)]))"
        "st\<lparr>currentQrDataUrl := Some url\<rparr>" ws]
    by (auto simp: on_qr_resume_def Let_def str_def broadcast_events_def)
next
  case Authenticated
  then show ?thesis
    using broadcast_appends[of "event ''authenticated'' None"
        "st\<lparr>clientStatus := AUTHENTICATED, currentQrDataUrl := None\<rparr>" ws]
    by (auto simp: on_authenticated_def broadcast_events_def)
next
  case (AuthFailure msg)
  then show ?thesis
    using broadcast_appends[of "event ''auth_failure'' (Some (JObj [(''message'', JStr msg)]))"
        "st\<lparr>clientStatus := AUTH_FAILURE\<rparr>" ws]
    by (auto simp: on_auth_failure_def broadcast_events_def)
next
  case (Ready info)
  then show ?thesis
    using broadcast_appends[of "event ''ready'' (Some (JObj [(''info'', info)]))"
        "st\<lparr>clientStatus := READY\<rparr>" ws]
    by (auto simp: on_ready_def broadcast_events_def)
next
  case (Disconnected reason)
  then show ?thesis
    using broadcast_appends[of "event ''disconnected'' (Some (JObj [(''reason'', JStr reason)]))"
        "st\<lparr>clientStatus := DISCONNECTED\<rparr>" ws]
    by (auto simp: on_disconnected_def broadcast_events_def)
next
  case Timeout
  then show ?thesis using no_append by (simp add: on_timeout_def createClient_def)
next
  case (Message msg got)
  then show ?thesis
    using broadcast_appends[of
        "event ''message'' (Some (payload_json (buildMessagePayload msg got)))" st ws]
    by (auto simp: on_message_def broadcast_events_def)
next
  case (MessageCreate msg got)
  then show ?thesis
    using broadcast_appends[of
        "event ''message_sent'' (Some (payload_json (buildMessagePayload msg got)))" st ws]
      no_append[of "sent (heap st ws)"]
    by (auto simp: on_message_create_def broadcast_events_def)
next
  case (MessageAck message_id ack)
  then show ?thesis
    using broadcast_appends[of "event ''message_ack''
        (Some (JObj [(''message_id'', JStr message_id), (''ack'', JNum ack)]))" st ws]
    by (auto simp: on_message_ack_def broadcast_events_def)
next
  case (ChangeState state)
  then show ?thesis
    using broadcast_appends[of "event ''state_change'' (Some (JObj [(''state'', JStr state)]))"
        st ws]
    by (auto simp: on_change_state_def broadcast_events_def)
next
  case InitializeRejected
  then show ?thesis using no_append by (simp add: on_initialize_error_def)
next
  case (Connection token)
  then show ?thesis using assms no_append
    by (simp add: wss_connection_def Let_def ws_send_def ws_close_def)
next
  case (SocketState i n)
  then show ?thesis using no_append by (simp add: set_readyState_def)
next
  case (SocketClose i)
  then show ?thesis using no_append by (simp add: set_readyState_def ws_on_close_def)
next
  case (SocketError i)
  then show ?thesis using no_append by (simp add: ws_on_error_def)
qed

lemma run_keeps_first:
  assumes "ws < next_ws st" and "sent (heap st ws) = x # rest"
    and "list_all (\<lambda>j. event_of j \<in> set broadcast_events) rest"
  shows "\<exists>st' rest'. run tok sigs st = Inr st' \<and> ws < next_ws st' \<and>
           sent (heap st' ws) = x # rest' \<and>
           list_all (\<lambda>j. event_of j \<in> set broadcast_events) rest'"
  using assms
proof (induction sigs arbitrary: st rest)
  case Nil
  then show ?case by simp
next
  case (Cons sig sigs)
  from fire_appends[OF Cons.prems(1), of tok sig]
  obtain st1 k q where 1: "fire tok sig st = Inr st1" "next_ws st \<le> next_ws st1"
      "sent (heap st1 ws) = sent (heap st ws) @ replicate k q"
      "event_of q \<in> set broadcast_events"
    by blast
  have a: "ws < next_ws st1" using 1(2) Cons.prems(1) by simp
  have b: "sent (heap st1 ws) = x # (rest @ replicate k q)" using 1(3) Cons.prems(2) by simp
  have c: "list_all (\<lambda>j. event_of j \<in> set broadcast_events) (rest @ replicate k q)"
    using Cons.prems(3) 1(4) by (auto simp: list_all_iff)
  from Cons.IH[OF a b c] 1(1) show ?case by simp
qed

text \<open>The subscriber set and the timers follow their closed forms, whatever the signal.\<close>

lemma fire_subscribers:
  "\<exists>st'. fire tok sig st = Inr st' \<and>
         (next_ws st', wsClients st') = subscribers_step tok sig (next_ws st, wsClients st)"
  by (cases sig)
     (simp_all add: broadcast_Inr createClient_def on_qr_def on_qr_resume_def
        on_authenticated_def on_auth_failure_def on_ready_def on_disconnected_def on_timeout_def
        on_message_def on_message_create_def on_message_ack_def on_change_state_def
        on_initialize_error_def wss_connection_def ws_send_def ws_close_def set_readyState_def
        ws_on_close_def ws_on_error_def Let_def)

lemma run_subscribers:
  "\<exists>st'. run tok sigs st = Inr st' \<and>
         (next_ws st', wsClients st') = subscribers_after tok sigs (next_ws st, wsClients st)"
proof (induction sigs arbitrary: st)
  case Nil
  show ?case by simp
next
  case (Cons sig sigs)
  obtain st1 where 1: "fire tok sig st = Inr st1"
      "(next_ws st1, wsClients st1) = subscribers_step tok sig (next_ws st, wsClients st)"
    using fire_subscribers by blast
  from Cons[of st1] 1 show ?case by (simp del: subscribers_step.simps)
qed

lemma step_removes:
  "set cs - set (snd (subscribers_step tok sig (n, cs))) = set (closes sig) \<inter> set cs"
  by (cases sig) (auto simp: set_add_def set_delete_def)

lemma fire_removes:
  "\<exists>st'. fire tok sig st = Inr st' \<and>
         set (wsClients st) - set (wsClients st') = set (closes sig) \<inter> set (wsClients st)"
proof -
  obtain st' where 1: "fire tok sig st = Inr st'"
      "(next_ws st', wsClients st') = subscribers_step tok sig (next_ws st, wsClients st)"
    using fire_subscribers by blast
  from 1(2) have "wsClients st' = snd (subscribers_step tok sig (next_ws st, wsClients st))"
    by (metis snd_conv)
  with 1(1) step_removes[of "wsClients st" tok sig "next_ws st"] show ?thesis by simp
qed





lemma connection_registers:
  "\<exists>st1. wss_connection tok (Some tok) st = Inr st1 \<and> next_ws st1 = Suc (next_ws st) \<and>
     wsClients st1 = set_add (next_ws st) (wsClients st) \<and>
     sent (heap st1 (next_ws st)) = [status_event (clientStatus st)] \<and>
     readyState (heap st1 (next_ws st)) = 1"
  by (simp add: wss_connection_def Let_def ws_send_def)

text \<open>A connection that presents another token, or none, is closed and not registered.\<close>

lemma connection_refused:
  "token \<noteq> Some tok \<Longrightarrow>
   \<exists>st1. wss_connection tok token st = Inr st1 \<and> wsClients st1 = wsClients st \<and>
     sent (heap st1 (next_ws st)) = [] \<and>
     closed_with (heap st1 (next_ws st)) = Some (4001, ''Unauthorized'')"
  by (simp add: wss_connection_def Let_def ws_close_def)

section \<open>The claims\<close>

subsection \<open>Broadcast and stale connections\<close>

text \<open>
  Claim C1, as the program has it. For every payload and every state, \<open>broadcast\<close>
  returns without raising. It hands the frame to each registered socket that is open
  (once, the set holding each socket once) and skips each that is not, and it removes
  nothing: the subscriber set after the call is the set before it, and nothing but the
  frames handed to open sockets changes. A socket leaves the set only through its own
  \<open>close\<close> or \<open>error\<close> handler: these two delete it, and whatever the signal, the
  sockets that its handler removes from the set are those whose \<open>close\<close> or \<open>error\<close>
  event it is; over a whole run the set is the one that connections and these two events
  alone determine.
\<close>

theorem broadcast_keeps_stale_connections:
  "(\<exists>st'. broadcast payload st = Inr st' \<and> wsClients st' = wsClients st \<and>
      (\<forall>ws. heap st' ws =
         (if readyState (heap st ws) = 1
          then (heap st ws)\<lparr>sent := sent (heap st ws) @
                                replicate (count_list (wsClients st) ws) payload\<rparr>
          else heap st ws)) \<and>
      (distinct (wsClients st) \<and> ws \<in> set (wsClients st) \<and> readyState (heap st ws) = 1 \<longrightarrow>
         sent (heap st' ws) = sent (heap st ws) @ [payload])) \<and>
   set (wsClients (ws_on_close ws st)) = set (wsClients st) - {ws} \<and>
   set (wsClients (ws_on_error ws st)) = set (wsClients st) - {ws} \<and>
   (\<exists>st'. fire tok sig st = Inr st' \<and>
      set (wsClients st) - set (wsClients st') = set (closes sig) \<inter> set (wsClients st)) \<and>
   (\<exists>st'. run tok sigs st = Inr st' \<and>
      (next_ws st', wsClients st') = subscribers_after tok sigs (next_ws st, wsClients st))"
proof -
  let ?st' = "st\<lparr>heap := delivered payload (wsClients st) (heap st)\<rparr>"
  have 1: "broadcast payload st = Inr ?st'" by (rule broadcast_Inr)
  have 2: "wsClients ?st' = wsClients st" by simp
  have 3: "\<forall>ws. heap ?st' ws =
         (if readyState (heap st ws) = 1
          then (heap st ws)\<lparr>sent := sent (heap st ws) @
                                replicate (count_list (wsClients st) ws) payload\<rparr>
          else heap st ws)"
    by (simp add: delivered_def)
  have 4: "distinct (wsClients st) \<and> ws \<in> set (wsClients st) \<and> readyState (heap st ws) = 1 \<longrightarrow>
         sent (heap ?st' ws) = sent (heap st ws) @ [payload]"
    by (simp add: delivered_def count_list_distinct)
  have 5: "set (wsClients (ws_on_close ws st)) = set (wsClients st) - {ws}"
    by (auto simp: ws_on_close_def set_delete_def)
  have 6: "set (wsClients (ws_on_error ws st)) = set (wsClients st) - {ws}"
    by (auto simp: ws_on_error_def set_delete_def)
  from 1 2 3 4 have b: "\<exists>st'. broadcast payload st = Inr st' \<and> wsClients st' = wsClients st \<and>
      (\<forall>ws. heap st' ws =
         (if readyState (heap st ws) = 1
          then (heap st ws)\<lparr>sent := sent (heap st ws) @
                                replicate (count_list (wsClients st) ws) payload\<rparr>
          else heap st ws)) \<and>
      (distinct (wsClients st) \<and> ws \<in> set (wsClients st) \<and> readyState (heap st ws) = 1 \<longrightarrow>
         sent (heap st' ws) = sent (heap st ws) @ [payload])"
    by blast
  from b 5 6 fire_removes[of tok sig st] run_subscribers[of tok sigs st] show ?thesis
    by (intro conjI)
qed

text \<open>The theorem at the sample state with its socket open again: the frame is appended.\<close>

theorem broadcast_keeps_stale_connections_witness:
  "distinct (wsClients (set_readyState 0 1 stale_bridge)) \<and>
   0 \<in> set (wsClients (set_readyState 0 1 stale_bridge)) \<and>
   readyState (heap (set_readyState 0 1 stale_bridge) 0) = 1 \<and>
   map_sum id (\<lambda>st. sent (heap st 0)) (broadcast JNull (set_readyState 0 1 stale_bridge))
     = Inr [status_event DISCONNECTED, JNull]"
proof -
  let ?st = "set_readyState 0 1 stale_bridge"
  have h: "distinct (wsClients ?st)" "0 \<in> set (wsClients ?st)" "readyState (heap ?st 0) = 1"
    and s: "sent (heap ?st 0) = [status_event DISCONNECTED]"
    by (simp_all add: stale_bridge_def init_bridge_def set_readyState_def)
  with broadcast_keeps_stale_connections[of JNull ?st 0]
  obtain st' where "broadcast JNull ?st = Inr st'"
      and "sent (heap st' 0) = sent (heap ?st 0) @ [JNull]"
    by blast
  with h s show ?thesis by simp
qed

text \<open>
  As stated, the claim has every connection that is seen not to be open removed by the
  call. In the sample state the one registered socket is closing; after a broadcast it is
  still registered.
\<close>

theorem broadcast_removes_stale_counterexample:
  "readyState (heap stale_bridge 0) \<noteq> 1 \<and> 0 \<in> set (wsClients stale_bridge) \<and>
   map_sum id wsClients
     (broadcast (event ''state_change'' (Some (JObj [(''state'', JStr ''CONFLICT'')]))) stale_bridge)
     = Inr [0]"
  by (simp add: stale_bridge_def init_bridge_def broadcast_def ws_send_def)

subsection \<open>The stored pairing artifact\<close>

text \<open>
  Claim C2, as the program has it. Only the transition to \<open>AUTHENTICATED\<close> sets the
  stored pairing artifact to null; the transitions to \<open>READY\<close> and to \<open>DISCONNECTED\<close>
  leave it as it is. After every sequence of signals the stored artifact is the data URL
  of the last encoded QR unless an \<open>authenticated\<close> signal came after it, and null in
  that case; so it can be present in a status other than \<open>QR_READY\<close>.
\<close>

theorem artifact_cleared_by_authenticated_only:
  "(\<exists>st'. on_authenticated st = Inr st' \<and> clientStatus st' = AUTHENTICATED \<and>
          currentQrDataUrl st' = None) \<and>
   (\<exists>st'. on_ready info st = Inr st' \<and> clientStatus st' = READY \<and>
          currentQrDataUrl st' = currentQrDataUrl st) \<and>
   (\<exists>st'. on_disconnected reason st = Inr st' \<and> clientStatus st' = DISCONNECTED \<and>
          currentQrDataUrl st' = currentQrDataUrl st) \<and>
   (\<exists>st'. run tok sigs st = Inr st' \<and>
          currentQrDataUrl st' = artifact_after sigs (currentQrDataUrl st))"
proof -
  have 1: "\<exists>st'. on_authenticated st = Inr st' \<and> clientStatus st' = AUTHENTICATED \<and>
          currentQrDataUrl st' = None"
    by (simp add: on_authenticated_def broadcast_Inr)
  have 2: "\<exists>st'. on_ready info st = Inr st' \<and> clientStatus st' = READY \<and>
          currentQrDataUrl st' = currentQrDataUrl st"
    by (simp add: on_ready_def broadcast_Inr)
  have 3: "\<exists>st'. on_disconnected reason st = Inr st' \<and> clientStatus st' = DISCONNECTED \<and>
          currentQrDataUrl st' = currentQrDataUrl st"
    by (simp add: on_disconnected_def broadcast_Inr)
  from 1 2 3 run_artifact[of tok sigs st] show ?thesis by blast
qed

text \<open>
  As stated, the claim has the artifact null after the transitions to \<open>READY\<close> and to
  \<open>DISCONNECTED\<close>. Two runs from the initial state end in these statuses with the QR
  still stored.
\<close>

theorem artifact_survives_ready_and_disconnected:
  "map_sum id (\<lambda>st. (clientStatus st, currentQrDataUrl st))
     (run ''s3cret''
        [Listening, Qr, QrEncoded ''data:image/png;base64,iVBORw0KGgo='', Ready JNull]
        init_bridge)
     = Inr (READY, Some ''data:image/png;base64,iVBORw0KGgo='') \<and>
   map_sum id (\<lambda>st. (clientStatus st, currentQrDataUrl st))
     (run ''s3cret''
        [Listening, Qr, QrEncoded ''data:image/png;base64,iVBORw0KGgo='', Disconnected ''LOGOUT'']
        init_bridge)
     = Inr (DISCONNECTED, Some ''data:image/png;base64,iVBORw0KGgo='')"
  by (simp add: init_bridge_def createClient_def on_qr_def on_qr_resume_def on_ready_def
        on_disconnected_def broadcast_def Let_def)

subsection \<open>Failure of initialisation\<close>




subsection \<open>Registration of a subscriber\<close>

text \<open>
  Claim C4. A connection that presents the configured token is registered, and the
  handler hands its socket exactly one frame: the object whose \<open>event\<close> is \<open>status\<close> and
  whose \<open>data\<close> holds the text of the status at that moment, each status having its own
  text. Whatever signals follow, that frame stays the first one handed to the socket, and
  every later frame is one of the published events, none of which is a \<open>status\<close> event.
\<close>

theorem registration_sends_status_first:
  "(\<exists>st1. wss_connection tok (Some tok) st = Inr st1 \<and>
      next_ws st \<in> set (wsClients st1) \<and>
      sent (heap st1 (next_ws st)) =
        [JObj [(''event'', JStr ''status''),
               (''data'', JObj [(''status'', JStr (status_text (clientStatus st)))])]] \<and>
      sent (heap st1 (next_ws st)) = [status_event (clientStatus st)] \<and>
      (\<forall>sigs. \<exists>st2 rest. run tok sigs st1 = Inr st2 \<and>
          sent (heap st2 (next_ws st)) =
            JObj [(''event'', JStr ''status''),
                  (''data'', JObj [(''status'', JStr (status_text (clientStatus st)))])] # rest \<and>
          list_all (\<lambda>j. event_of j \<in> set [''qr'', ''authenticated'', ''auth_failure'', ''ready'',
                      ''disconnected'', ''message'', ''message_sent'', ''message_ack'',
                      ''state_change'']) rest \<and>
          list_all (\<lambda>j. event_of j \<noteq> ''status'') rest)) \<and>
   event_of (status_event s) = ''status'' \<and>
   map status_text [DISCONNECTED, INITIALIZING, QR_READY, AUTHENTICATED, READY, AUTH_FAILURE]
     = [''DISCONNECTED'', ''INITIALIZING'', ''QR_READY'', ''AUTHENTICATED'', ''READY'',
        ''AUTH_FAILURE'']"
proof -
  let ?frame = "JObj [(''event'', JStr ''status''),
                      (''data'', JObj [(''status'', JStr (status_text (clientStatus st)))])]"
  have frame: "status_event (clientStatus st) = ?frame"
    by (simp add: status_event_def event_def)
  obtain st1 where 1: "wss_connection tok (Some tok) st = Inr st1"
     "next_ws st1 = Suc (next_ws st)"
     "wsClients st1 = set_add (next_ws st) (wsClients st)"
     "sent (heap st1 (next_ws st)) = [status_event (clientStatus st)]"
    using connection_registers by blast
  have mem: "next_ws st \<in> set (wsClients st1)" using 1(3) by (simp add: set_add_def)
  have later: "\<exists>st2 rest. run tok sigs st1 = Inr st2 \<and>
          sent (heap st2 (next_ws st)) = ?frame # rest \<and>
          list_all (\<lambda>j. event_of j \<in> set [''qr'', ''authenticated'', ''auth_failure'', ''ready'',
                      ''disconnected'', ''message'', ''message_sent'', ''message_ack'',
                      ''state_change'']) rest \<and>
          list_all (\<lambda>j. event_of j \<noteq> ''status'') rest" for sigs
  proof -
    from run_keeps_first[of "next_ws st" st1 "status_event (clientStatus st)" "[]" tok sigs] 1(2,4)
    obtain st2 rest where 2: "run tok sigs st1 = Inr st2"
        "sent (heap st2 (next_ws st)) = status_event (clientStatus st) # rest"
        "list_all (\<lambda>j. event_of j \<in> set broadcast_events) rest"
      by auto
    from 2(3) have 3: "list_all (\<lambda>j. event_of j \<in> set [''qr'', ''authenticated'',
        ''auth_failure'', ''ready'', ''disconnected'', ''message'', ''message_sent'',
        ''message_ack'', ''state_change'']) rest"
      by (simp add: broadcast_events_def)
    from 2(3) have 4: "list_all (\<lambda>j. event_of j \<noteq> ''status'') rest"
      by (auto simp: list_all_iff broadcast_events_def)
    from 2(1,2) 3 4 frame show ?thesis by auto
  qed
  have first: "\<exists>st1. wss_connection tok (Some tok) st = Inr st1 \<and>
      next_ws st \<in> set (wsClients st1) \<and>
      sent (heap st1 (next_ws st)) = [?frame] \<and>
      sent (heap st1 (next_ws st)) = [status_event (clientStatus st)] \<and>
      (\<forall>sigs. \<exists>st2 rest. run tok sigs st1 = Inr st2 \<and>
          sent (heap st2 (next_ws st)) = ?frame # rest \<and>
          list_all (\<lambda>j. event_of j \<in> set [''qr'', ''authenticated'', ''auth_failure'', ''ready'',
                      ''disconnected'', ''message'', ''message_sent'', ''message_ack'',
                      ''state_change'']) rest \<and>
          list_all (\<lambda>j. event_of j \<noteq> ''status'') rest)"
    using 1(1,4) mem later frame by auto
  have name: "event_of (status_event s) = ''status''"
    by (simp add: status_event_def)
  have texts: "map status_text
      [DISCONNECTED, INITIALIZING, QR_READY, AUTHENTICATED, READY, AUTH_FAILURE]
     = [''DISCONNECTED'', ''INITIALIZING'', ''QR_READY'', ''AUTHENTICATED'', ''READY'',
        ''AUTH_FAILURE'']"
    by simp
  from first name texts show ?thesis by (intro conjI)
qed

subsection \<open>The destination of a send\<close>

text \<open>
  Claim C5. The destination \<open>15551234567\<close> resolves to \<open>15551234567@c.us\<close> and
  \<open>123@g.us\<close> resolves to itself. In general a destination that contains \<open>@\<close> is used
  unchanged, and one that does not is reduced to its digits and given the suffix
  \<open>@c.us\<close>. The resolved identifier is what the handler passes to the messaging client.
\<close>

theorem send_destination_normalised:
  "chatId ''15551234567'' = ''15551234567@c.us'' \<and>
   chatId ''123@g.us'' = ''123@g.us'' \<and>
   (CHR ''@'' \<in> set to \<longrightarrow> chatId to = to) \<and>
   (CHR ''@'' \<notin> set to \<longrightarrow>
      chatId to = filter (\<lambda>c. c \<in> set ''0123456789'') to @ ''@c.us'') \<and>
   (clientStatus st = READY \<and> body_to b = Some (JStr to) \<and> to \<noteq> [] \<and>
      \<not> truthy_json (body_media_url b) \<and> body_message b = Some (JStr m) \<and> m \<noteq> [] \<longrightarrow>
      map_sum id snd (api_send ed w st (Some b))
        = Inr [SendMessage (JStr (chatId to)) (Text (JStr m))])"
proof -
  have 1: "chatId ''15551234567'' = ''15551234567@c.us''"
    by (simp add: chatId_char is_digit_def)
  have 2: "chatId ''123@g.us'' = ''123@g.us''"
    by (simp add: chatId_char)
  have 3: "CHR ''@'' \<in> set to \<longrightarrow> chatId to = to"
    by (simp add: chatId_char)
  have "is_digit = (\<lambda>c. c \<in> set ''0123456789'')"
    by (simp add: fun_eq_iff is_digit_def)
  then have 4: "CHR ''@'' \<notin> set to \<longrightarrow>
      chatId to = filter (\<lambda>c. c \<in> set ''0123456789'') to @ ''@c.us''"
    by (simp add: chatId_char)
  have 5: "clientStatus st = READY \<and> body_to b = Some (JStr to) \<and> to \<noteq> [] \<and>
      \<not> truthy_json (body_media_url b) \<and> body_message b = Some (JStr m) \<and> m \<noteq> [] \<longrightarrow>
      map_sum id snd (api_send ed w st (Some b))
        = Inr [SendMessage (JStr (chatId to)) (Text (JStr m))]"
    using send_text_calls[of st b to m ed w] by blast
  from 1 2 3 4 5 show ?thesis by blast
qed

theorem send_destination_normalised_witness:
  "CHR ''@'' \<in> set ''120363@g.us'' \<and> chatId ''120363@g.us'' = ''120363@g.us'' \<and>
   CHR ''@'' \<notin> set ''+1 (555) 123-4567'' \<and>
   chatId ''+1 (555) 123-4567'' = ''15551234567@c.us'' \<and>
   map_sum id snd
     (api_send Addon echo_world (init_bridge\<lparr>clientStatus := READY\<rparr>) (Some hello_body))
     = Inr [SendMessage (JStr ''15551234567@c.us'') (Text (JStr ''hello''))]"
proof -
  let ?st = "init_bridge\<lparr>clientStatus := READY\<rparr>"
  have a: "CHR ''@'' \<in> set ''120363@g.us''" and b: "CHR ''@'' \<notin> set ''+1 (555) 123-4567''"
    by simp_all
  have h: "clientStatus ?st = READY \<and>
           body_to hello_body = Some (JStr ''+1 (555) 123-4567'') \<and>
           ''+1 (555) 123-4567'' \<noteq> [] \<and>
           \<not> truthy_json (body_media_url hello_body) \<and>
           body_message hello_body = Some (JStr ''hello'') \<and>
           ''hello'' \<noteq> []"
    by (simp add: hello_body_def)
  from a send_destination_normalised[of "''120363@g.us''"]
  have 1: "chatId ''120363@g.us'' = ''120363@g.us''" by blast
  from b send_destination_normalised[of "''+1 (555) 123-4567''"]
  have 2: "chatId ''+1 (555) 123-4567''
             = filter (\<lambda>c. c \<in> set ''0123456789'') ''+1 (555) 123-4567'' @ ''@c.us''"
    by blast
  from h send_destination_normalised[of "''+1 (555) 123-4567''" ?st hello_body "''hello''"
      Addon echo_world]
  have 3: "map_sum id snd (api_send Addon echo_world ?st (Some hello_body))
     = Inr [SendMessage (JStr (chatId ''+1 (555) 123-4567'')) (Text (JStr ''hello''))]"
    by blast
  from 2 have 4: "chatId ''+1 (555) 123-4567'' = ''15551234567@c.us''" by simp
  from a b 1 3 4 show ?thesis by simp
qed

subsection \<open>A send while not ready\<close>

text \<open>
  Claim C6. Whenever the status is not \<open>READY\<close>, the send operation replies 503 with the
  not-ready error that names the status, whatever the request body is (its properties
  holding any JSON values) and also when there is none, and it makes no call to the
  messaging client.
\<close>

theorem send_not_ready_first:
  "clientStatus st \<noteq> READY \<Longrightarrow>
   api_send ed w st body =
     Inr (Json 503 (JObj [(''error'', JStr (not_ready_text ed @ status_text (clientStatus st)))]),
          [])"
  by (simp add: api_send_def error_reply_def)

theorem send_not_ready_first_witness:
  "clientStatus init_bridge \<noteq> READY \<and>
   api_send Addon echo_world init_bridge (Some hello_body) =
     Inr (Json 503 (JObj [(''error'', JStr ''WhatsApp not ready. Status: DISCONNECTED'')]), []) \<and>
   api_send Standalone echo_world init_bridge None =
     Inr (Json 503 (JObj [(''error'', JStr ''WhatsApp client not ready. Status: DISCONNECTED'')]),
          []) \<and>
   api_send Standalone echo_world init_bridge (Some number_body) =
     Inr (Json 503 (JObj [(''error'', JStr ''WhatsApp client not ready. Status: DISCONNECTED'')]),
          [])"
proof -
  have h: "clientStatus init_bridge \<noteq> READY" by (simp add: init_bridge_def)
  from send_not_ready_first[OF h, of Addon echo_world "Some hello_body"]
    send_not_ready_first[OF h, of Standalone echo_world None]
    send_not_ready_first[OF h, of Standalone echo_world "Some number_body"] h
  show ?thesis by (simp add: not_ready_text_def init_bridge_def)
qed

subsection \<open>A send with neither text nor media\<close>

text \<open>
  Claim C7, as the program has it. When the status is \<open>READY\<close> and the destination in
  the body is a non-empty string, but neither a message nor a media URL is given (each
  missing or falsy), the send operation replies 400 with the message-required error and
  makes no call to the messaging client.
\<close>

theorem send_requires_message_or_media:
  "clientStatus st = READY \<Longrightarrow> body_to b = Some (JStr to) \<Longrightarrow> to \<noteq> [] \<Longrightarrow>
   \<not> truthy_json (body_message b) \<Longrightarrow> \<not> truthy_json (body_media_url b) \<Longrightarrow>
   api_send ed w st (Some b) =
     Inr (Json 400 (JObj [(''error'', JStr (message_required_text ed))]), [])"
  by (simp add: api_send_def Let_def error_reply_def js_value_def)

theorem send_requires_message_or_media_witness:
  "clientStatus (init_bridge\<lparr>clientStatus := READY\<rparr>) = READY \<and>
   body_to (no_body\<lparr>body_to := Some (JStr ''15551234567'')\<rparr>) = Some (JStr ''15551234567'') \<and>
   ''15551234567'' \<noteq> [] \<and>
   \<not> truthy_json (body_message (no_body\<lparr>body_to := Some (JStr ''15551234567'')\<rparr>)) \<and>
   \<not> truthy_json (body_media_url (no_body\<lparr>body_to := Some (JStr ''15551234567'')\<rparr>)) \<and>
   api_send Standalone echo_world (init_bridge\<lparr>clientStatus := READY\<rparr>)
       (Some (no_body\<lparr>body_to := Some (JStr ''15551234567'')\<rparr>)) =
     Inr (Json 400 (JObj [(''error'', JStr (message_required_text Standalone))]), [])"
proof -
  let ?st = "init_bridge\<lparr>clientStatus := READY\<rparr>"
    and ?b = "no_body\<lparr>body_to := Some (JStr ''15551234567'')\<rparr>"
  have h: "clientStatus ?st = READY" "body_to ?b = Some (JStr ''15551234567'')"
      "''15551234567'' \<noteq> []" "\<not> truthy_json (body_message ?b)"
      "\<not> truthy_json (body_media_url ?b)"
    by (simp_all add: no_body_def)
  from send_requires_message_or_media[OF h, of Standalone echo_world] h show ?thesis by simp
qed

text \<open>
  As stated, the claim covers every destination that is supplied. With the status
  \<open>READY\<close> and the body \<open>{"to": 15551234567}\<close> the destination is supplied and truthy and
  neither message nor media URL is given, but the handler sends no 400: the call of
  \<open>to.includes\<close> throws before the \<open>try\<close> block, and no reply is sent.
\<close>

theorem send_number_destination_throws:
  "clientStatus (init_bridge\<lparr>clientStatus := READY\<rparr>) = READY \<and>
   truthy_json (body_to number_body) \<and>
   \<not> truthy_json (body_message number_body) \<and>
   \<not> truthy_json (body_media_url number_body) \<and>
   api_send Standalone echo_world (init_bridge\<lparr>clientStatus := READY\<rparr>) (Some number_body)
     = Inl (TypeError ''to.includes is not a function'') \<and>
   api_send Addon echo_world (init_bridge\<lparr>clientStatus := READY\<rparr>) (Some number_body)
     = Inl (TypeError ''to.includes is not a function'')"
  by (simp add: api_send_def Let_def number_body_def no_body_def js_value_def)

subsection \<open>The pairing-artifact query\<close>

text \<open>
  Claim C8. The query answers with the already-authenticated reply exactly when the status
  is \<open>READY\<close> or \<open>AUTHENTICATED\<close>, whether or not a QR image is stored. It answers with
  the QR page exactly in the other statuses with an image stored, and with the waiting
  reply exactly in the other statuses with none.
\<close>

theorem qr_query_already_authenticated:
  "(api_qr ed st =
      (case ed of
         Standalone \<Rightarrow> Json 200 (JObj [(''message'', JStr ''Already authenticated, no QR needed.'')])
       | Addon \<Rightarrow> Html 200 AlreadyAuthenticatedPage))
     = (clientStatus st = READY \<or> clientStatus st = AUTHENTICATED) \<and>
   (\<exists>url. api_qr ed st = Html 200 (QrCodePage url))
     = (clientStatus st \<noteq> READY \<and> clientStatus st \<noteq> AUTHENTICATED \<and>
        truthy (currentQrDataUrl st)) \<and>
   (api_qr ed st =
      (case ed of
         Standalone \<Rightarrow> Json 200 (JObj [(''message'',
            JStr (''QR not yet generated. Status: '' @ status_text (clientStatus st)))])
       | Addon \<Rightarrow> Html 200 (WaitingForQrPage (status_text (clientStatus st)))))
     = (clientStatus st \<noteq> READY \<and> clientStatus st \<noteq> AUTHENTICATED \<and>
        \<not> truthy (currentQrDataUrl st))"
  by (cases ed) (auto simp: api_qr_def)

subsection \<open>The bearer-token check\<close>

text \<open>
  Claim C9. The middleware calls \<open>next()\<close> exactly when the token the header presents
  (the header without one leading \<open>Bearer\<close> word and its white space, in any mix of cases,
  and trimmed) equals the configured token, and replies 401 otherwise. A bare token is
  accepted, and so is the token after \<open>Bearer\<close>; a request with no header gets 401; and on
  a mismatch the route replies 401 with nothing of the handler in the result.
\<close>

theorem auth_accepts_iff_presented_token:
  "auth api_token authorization =
     (if presented_token (str authorization) = api_token then None
      else Some (Json 401 (JObj [(''error'', JStr ''Unauthorized'')]))) \<and>
   (trim api_token = api_token \<and> \<not> has_Bearer_prefix api_token \<longrightarrow>
      auth api_token (Some api_token) = None) \<and>
   (trim api_token = api_token \<longrightarrow> auth api_token (Some (''Bearer '' @ api_token)) = None) \<and>
   auth (API_TOKEN cfg) None = Some (Json 401 (JObj [(''error'', JStr ''Unauthorized'')])) \<and>
   (presented_token (str authorization) \<noteq> api_token \<longrightarrow>
      route api_token authorization handler
        = (Json 401 (JObj [(''error'', JStr ''Unauthorized'')]), []))"
proof -
  have 2: "trim api_token = api_token \<and> \<not> has_Bearer_prefix api_token \<longrightarrow>
      auth api_token (Some api_token) = None"
    by (simp add: auth_char presented_token_def str_def)
  have 3: "trim api_token = api_token \<longrightarrow> auth api_token (Some (''Bearer '' @ api_token)) = None"
    using has_Bearer_prefix_Bearer[of api_token]
    by (simp add: auth_char presented_token_def str_def)
  have 4: "auth (API_TOKEN cfg) None = Some (Json 401 (JObj [(''error'', JStr ''Unauthorized'')]))"
    using API_TOKEN_nonempty[of cfg] by (auto simp: auth_char str_def presented_empty)
  have 5: "presented_token (str authorization) \<noteq> api_token \<longrightarrow>
      route api_token authorization handler
        = (Json 401 (JObj [(''error'', JStr ''Unauthorized'')]), [])"
    by (simp add: route_def auth_char)
  from auth_char[of api_token authorization] 2 3 4 5 show ?thesis by blast
qed

theorem auth_accepts_iff_presented_token_witness:
  "trim ''s3cret'' = ''s3cret'' \<and> \<not> has_Bearer_prefix ''s3cret'' \<and>
   auth ''s3cret'' (Some ''s3cret'') = None \<and>
   auth ''s3cret'' (Some ''Bearer s3cret'') = None \<and>
   presented_token (str (Some ''Bearer wrong'')) \<noteq> ''s3cret'' \<and>
   route ''s3cret'' (Some ''Bearer wrong'') (Json 200 JNull, [SendMessage (JStr ''1@c.us'') (Text (JStr ''x''))])
     = (Json 401 (JObj [(''error'', JStr ''Unauthorized'')]), [])"
proof -
  have w: "presented_token (str (Some ''Bearer wrong'')) \<noteq> ''s3cret''"
    by (simp add: str_def presented_wrong)
  note t = auth_accepts_iff_presented_token[of "''s3cret''" "Some ''Bearer wrong''" None
      "(Json 200 JNull, [SendMessage (JStr ''1@c.us'') (Text (JStr ''x''))])"]
  from t trim_secret no_prefix_secret have 1: "auth ''s3cret'' (Some ''s3cret'') = None"
    by blast
  from t trim_secret have 2: "auth ''s3cret'' (Some (''Bearer '' @ ''s3cret'')) = None"
    by blast
  from t w have 3:
    "route ''s3cret'' (Some ''Bearer wrong'') (Json 200 JNull, [SendMessage (JStr ''1@c.us'') (Text (JStr ''x''))])
       = (Json 401 (JObj [(''error'', JStr ''Unauthorized'')]), [])"
    by blast
  from 1 2 3 w trim_secret no_prefix_secret show ?thesis by simp
qed

subsection \<open>The group flag\<close>

text \<open>
  Claim C10. In every payload the group flag says whether the sender identifier ends in
  \<open>@g.us\<close>. It does not depend on the recipient or on the origin flag; for a message of
  the session's own, sent to a group, it is computed from the session's own identifier
  and is false.
\<close>

theorem is_group_from_sender_only:
  "is_group (buildMessagePayload msg got) = suffix ''@g.us'' (msg_from msg) \<and>
   is_group (buildMessagePayload (msg\<lparr>msg_to := t, msg_fromMe := b\<rparr>) got)
     = is_group (buildMessagePayload msg got) \<and>
   \<not> is_group (buildMessagePayload
        \<lparr> msg_id = ''true_120363040000000000@g.us_3EB0'', msg_from = ''491701234567@c.us'',
          msg_to = ''120363040000000000@g.us'', msg_body = ''hi all'', msg_type = ''chat'',
          msg_timestamp = 1700000000, msg_fromMe = True, msg_hasMedia = False,
          msg_hasQuotedMsg = False \<rparr> None)"
proof -
  have 1: "is_group (buildMessagePayload m g) = suffix ''@g.us'' (msg_from m)" for m g
    by (simp add: buildMessagePayload_def Let_def endsWith_suffix)
  have 2: "is_group (buildMessagePayload (msg\<lparr>msg_to := t, msg_fromMe := b\<rparr>) got)
     = is_group (buildMessagePayload msg got)"
    by (simp add: 1)
  have 3: "\<not> is_group (buildMessagePayload
        \<lparr> msg_id = ''true_120363040000000000@g.us_3EB0'', msg_from = ''491701234567@c.us'',
          msg_to = ''120363040000000000@g.us'', msg_body = ''hi all'', msg_type = ''chat'',
          msg_timestamp = 1700000000, msg_fromMe = True, msg_hasMedia = False,
          msg_hasQuotedMsg = False \<rparr> None)"
    by (simp add: buildMessagePayload_def Let_def endsWith_def)
  from 1[of msg got] 2 3 show ?thesis by blast
qed

end
